theory Spec2Isabelle
  imports Main "HOL-Library.Word"
begin

section \<open>Netlib: a TCP socket wrapper and a single-shot server\<close>

text \<open>
  The header \<^verbatim>\<open>Netlib.hpp\<close> defines \<^verbatim>\<open>netlib::network::tcp::socket\<close> and
  \<^verbatim>\<open>netlib::network::tcp::server\<close>. Both are thin layers over POSIX calls. The calls
  themselves are not part of the repository, so the operating system is a parameter of the
  model: a record of functions that give the result of each call. Every such function also
  receives the list of events that happened so far, so that the same call may answer
  differently at different times. Each member function takes the object and the event list
  and returns the outcome, the updated object and the extended event list; an exception is
  the outcome \<open>Inl\<close>, and the object keeps the assignments made before the throw.
\<close>

subsection \<open>Data\<close>

type_synonym sockaddr = "nat list"

text \<open>\<^verbatim>\<open>struct addrinfo\<close>, with the fields the header reads. \<open>ai_next = None\<close> is the
  null pointer, and so is \<open>ai_addr = None\<close>.\<close>

datatype addrinfo = Addrinfo
  (ai_family: int) (ai_socktype: int) (ai_protocol: int)
  (ai_addrlen: nat) (ai_addr: "sockaddr option") (ai_next: "addrinfo option")

definition zero_addrinfo :: addrinfo where
  "zero_addrinfo = Addrinfo 0 0 0 0 None None"

record socket =
  fd_m :: int
  host_m :: string
  port_m :: "32 word"
  addrinfo_m :: addrinfo
  v_addrinfo_m :: addrinfo
  is_socket_bound_m :: bool

text \<open>A data member \<^verbatim>\<open>x_\<close> of the header is the field \<open>x_m\<close> here (a name cannot end
  with an underscore).\<close>

text \<open>The exceptions the header throws, by class, with their message. \<open>Invalid_argument\<close>
  and \<open>Out_of_range\<close> come from \<^verbatim>\<open>std::stoi\<close>. \<open>Terminate\<close> stands for
  \<^verbatim>\<open>std::terminate\<close> (a destructor that throws), \<open>Undefined_behaviour\<close> for an
  operation the language gives no meaning to.\<close>

datatype error =
    Logic_error string
  | Runtime_error string
  | Invalid_argument
  | Out_of_range
  | Terminate
  | Undefined_behaviour

datatype ni_flag = NI_NUMERICHOST | NI_NUMERICSERV

datatype event =
    Call_getaddrinfo string string
  | Call_socket int int int
  | Call_setsockopt int
  | Call_bind int "sockaddr option" nat
  | Call_listen int "32 word"
  | Call_accept int
  | Call_getnameinfo sockaddr nat "ni_flag list"
  | Call_connect int "sockaddr option" nat
  | Call_send int string nat
  | Call_recv int nat
  | Call_close int
  | Print_cout string
  | Print_cerr string
  | Call_callback string socket

text \<open>The operating system. \<open>sys_recv\<close> answers \<open>None\<close> for the return value \<open>-1\<close> and
  \<open>Some bs\<close> when it delivers the bytes \<open>bs\<close>. \<open>SOMAXCONN\<close> is the macro of
  \<^verbatim>\<open>sys/socket.h\<close>.\<close>

record os =
  sys_getaddrinfo :: "event list \<Rightarrow> string \<Rightarrow> string \<Rightarrow> int \<times> addrinfo option"
  sys_socket :: "event list \<Rightarrow> int \<Rightarrow> int \<Rightarrow> int \<Rightarrow> int"
  sys_setsockopt :: "event list \<Rightarrow> int \<Rightarrow> int"
  sys_bind :: "event list \<Rightarrow> int \<Rightarrow> sockaddr option \<Rightarrow> nat \<Rightarrow> int"
  sys_listen :: "event list \<Rightarrow> int \<Rightarrow> 32 word \<Rightarrow> int"
  sys_accept :: "event list \<Rightarrow> int \<Rightarrow> int \<times> sockaddr \<times> nat"
  sys_getnameinfo :: "event list \<Rightarrow> sockaddr \<Rightarrow> nat \<Rightarrow> int \<times> string \<times> string"
  sys_connect :: "event list \<Rightarrow> int \<Rightarrow> sockaddr option \<Rightarrow> nat \<Rightarrow> int"
  sys_send :: "event list \<Rightarrow> int \<Rightarrow> string \<Rightarrow> nat \<Rightarrow> int"
  sys_recv :: "event list \<Rightarrow> int \<Rightarrow> nat \<Rightarrow> string option"
  sys_close :: "event list \<Rightarrow> int \<Rightarrow> int"
  SOMAXCONN :: nat

type_synonym 'a outcome = "(error + 'a) \<times> socket \<times> event list"

type_synonym callback = "string \<Rightarrow> socket \<Rightarrow> event list \<Rightarrow> error option \<times> socket \<times> event list"

record server =
  socket_m :: socket
  is_running_m :: bool
  callback_m :: "callback option"

subsection \<open>Constants and text helpers\<close>

definition BACKLOG :: "32 word" where
  "BACKLOG = 30"

definition BUFFER_SIZE :: nat where
  "BUFFER_SIZE = 8096"

definition NUL :: char where
  "NUL = CHR 0x00"

definition LF :: char where
  "LF = CHR 0x0A"

text \<open>\<^verbatim>\<open>c_str()\<close> handed to a C function, and \<^verbatim>\<open>std::string(const char *)\<close> on a
  terminated array: the characters before the first NUL.\<close>

definition c_str :: "string \<Rightarrow> string" where
  "c_str s = takeWhile (\<lambda>c. c \<noteq> NUL) s"

text \<open>\<^verbatim>\<open>std::string(rcv.data())\<close> on a vector: the scan for the terminator leaves the
  vector when it holds no NUL.\<close>

definition string_of_data :: "string \<Rightarrow> string option" where
  "string_of_data v = (if NUL \<in> set v then Some (takeWhile (\<lambda>c. c \<noteq> NUL) v) else None)"

text \<open>\<^verbatim>\<open>std::to_string\<close> of an unsigned value.\<close>

definition digit_char :: "nat \<Rightarrow> char" where
  "digit_char d = ''0123456789'' ! d"

fun to_string :: "nat \<Rightarrow> string" where
  "to_string n =
     (if n < 10 then [digit_char n]
      else to_string (n div 10) @ [digit_char (n mod 10)])"

declare to_string.simps [simp del]

text \<open>\<^verbatim>\<open>std::stoi\<close>: leading white space, an optional sign, then decimal digits; what
  follows the digits is ignored.\<close>

definition isspace :: "char \<Rightarrow> bool" where
  "isspace c = ((of_char c :: nat) \<in> {32, 9, 10, 11, 12, 13})"

definition isdigit :: "char \<Rightarrow> bool" where
  "isdigit c = (48 \<le> (of_char c :: nat) \<and> (of_char c :: nat) \<le> 57)"

definition digits_value :: "string \<Rightarrow> int" where
  "digits_value ds = foldl (\<lambda>acc c. 10 * acc + (int (of_char c) - 48)) 0 ds"

definition stoi :: "string \<Rightarrow> error + int" where
  "stoi str =
     (let t = dropWhile isspace str;
          neg = (t \<noteq> [] \<and> hd t = CHR ''-'');
          u = (if t \<noteq> [] \<and> (hd t = CHR ''-'' \<or> hd t = CHR ''+'') then tl t else t);
          ds = takeWhile isdigit u;
          v = (if neg then - digits_value ds else digits_value ds)
      in if ds = [] then Inl Invalid_argument
         else if v < - (2 ^ 31) \<or> 2 ^ 31 - 1 < v then Inl Out_of_range
         else Inr v)"

subsection \<open>socket\<close>

text \<open>The two constructors.\<close>

definition socket_default :: socket where
  "socket_default =
     \<lparr>fd_m = -1, host_m = ''127.0.0.1'', port_m = 12345, addrinfo_m = zero_addrinfo,
      v_addrinfo_m = zero_addrinfo, is_socket_bound_m = False\<rparr>"

definition socket_from_fd :: "int \<Rightarrow> string \<Rightarrow> 32 word \<Rightarrow> socket" where
  "socket_from_fd fd host port =
     \<lparr>fd_m = fd, host_m = host, port_m = port, addrinfo_m = zero_addrinfo,
      v_addrinfo_m = zero_addrinfo, is_socket_bound_m = False\<rparr>"

text \<open>Accessors.\<close>

definition get_fd :: "socket \<Rightarrow> int" where
  "get_fd s = fd_m s"

definition get_host :: "socket \<Rightarrow> string" where
  "get_host s = host_m s"

definition get_port :: "socket \<Rightarrow> int" where
  "get_port s = sint (port_m s)"

definition is_socket_bound :: "socket \<Rightarrow> bool" where
  "is_socket_bound s = is_socket_bound_m s"

text \<open>\<^verbatim>\<open>close\<close>: the throw comes before the assignment to \<open>fd_m\<close>.\<close>

definition close :: "os \<Rightarrow> socket \<Rightarrow> event list \<Rightarrow> unit outcome" where
  "close os s h =
     (if fd_m s \<noteq> -1 then
        (let r = sys_close os h (fd_m s);
             h1 = h @ [Call_close (fd_m s)]
         in if r = -1 then (Inl (Runtime_error ''tcp::socket::close: close() failed.''), s, h1)
            else (Inr (), s\<lparr>fd_m := -1\<rparr>, h1))
      else (Inr (), s\<lparr>fd_m := -1\<rparr>, h))"

text \<open>\<^verbatim>\<open>get_addr_info\<close>: the head of the result list is copied into \<open>addrinfo_m\<close> when
  the list is not null.\<close>

definition get_addr_info :: "os \<Rightarrow> socket \<Rightarrow> event list \<Rightarrow> unit outcome" where
  "get_addr_info os s h =
     (let node = c_str (host_m s);
          service = c_str (to_string (unat (port_m s)));
          (status, infos) = sys_getaddrinfo os h node service;
          h1 = h @ [Call_getaddrinfo node service]
      in if status \<noteq> 0 then
           (Inl (Runtime_error ''tcp::socket::get_addr_info: getaddrinfo() failed.''), s, h1)
         else (Inr (), (case infos of None \<Rightarrow> s | Some a \<Rightarrow> s\<lparr>addrinfo_m := a\<rparr>), h1))"

text \<open>The loop of \<^verbatim>\<open>create_socket\<close> over the candidates, from the candidate \<open>p\<close> on.\<close>

fun create_socket_loop :: "os \<Rightarrow> addrinfo \<Rightarrow> socket \<Rightarrow> event list \<Rightarrow> socket \<times> event list" where
  "create_socket_loop os (Addrinfo fam typ proto len addr nxt) s h =
     (let fd = sys_socket os h fam typ proto;
          h1 = h @ [Call_socket fam typ proto];
          s1 = s\<lparr>fd_m := fd\<rparr>
      in if fd = -1 then
           (let h2 = h1 @ [Print_cerr (''failed to create socket ...'' @ [LF])]
            in case nxt of None \<Rightarrow> (s1, h2) | Some q \<Rightarrow> create_socket_loop os q s1 h2)
         else (s1\<lparr>v_addrinfo_m := Addrinfo fam typ proto len addr nxt\<rparr>, h1))"

definition create_socket :: "os \<Rightarrow> socket \<Rightarrow> event list \<Rightarrow> unit outcome" where
  "create_socket os s h =
     (if fd_m s \<noteq> -1 then (Inr (), s, h)
      else (let (s1, h1) = create_socket_loop os (addrinfo_m s) s h
            in if fd_m s1 = -1 then
                 (Inl (Runtime_error ''tcp::socket::create_socket: socket failed().''), s1, h1)
               else (Inr (), s1, h1)))"

definition bind :: "os \<Rightarrow> socket \<Rightarrow> string \<Rightarrow> 32 word \<Rightarrow> event list \<Rightarrow> unit outcome" where
  "bind os s host port h =
     (case get_addr_info os (s\<lparr>host_m := host, port_m := port\<rparr>) h of
        (Inl e, s1, h1) \<Rightarrow> (Inl e, s1, h1)
      | (Inr _, s1, h1) \<Rightarrow>
        (case create_socket os s1 h1 of
           (Inl e, s2, h2) \<Rightarrow> (Inl e, s2, h2)
         | (Inr _, s2, h2) \<Rightarrow>
           (let h3 = h2 @ [Call_setsockopt (fd_m s2)]
            in if sys_setsockopt os h2 (fd_m s2) = -1 then
                 (Inl (Runtime_error ''tcp::socket::bind: setsockopt() failed.''), s2, h3)
               else
                 (let a = v_addrinfo_m s2;
                      h4 = h3 @ [Call_bind (fd_m s2) (ai_addr a) (ai_addrlen a)]
                  in if sys_bind os h3 (fd_m s2) (ai_addr a) (ai_addrlen a) = -1 then
                       (Inl (Runtime_error ''tcp::socket::bind: bind() failed.''), s2, h4)
                     else (Inr (), s2\<lparr>is_socket_bound_m := True\<rparr>, h4)))))"

definition backlog_warning :: string where
  "backlog_warning =
     ''tcp::socket::listen: Param backlog greater than SOMAXCONN.'' @ [LF]
     @ ''Please refer to the value in /proc/sys/net/core/somaxconn. ''
     @ ''Param backlog will be truncated.''"

text \<open>\<^verbatim>\<open>listen\<close>: the message goes to \<^verbatim>\<open>std::cerr\<close> (followed by \<^verbatim>\<open>std::endl\<close>), and
  \<open>backlog\<close> is handed to the call as it came.\<close>

definition listen :: "os \<Rightarrow> socket \<Rightarrow> 32 word \<Rightarrow> event list \<Rightarrow> unit outcome" where
  "listen os s backlog h =
     (if \<not> is_socket_bound_m s then
        (Inl (Logic_error
           ''tcp::socket::listen: Socket must be bound before listenning for incoming connections.''),
         s, h)
      else
        (let h1 = (if SOMAXCONN os < unat backlog then h @ [Print_cerr (backlog_warning @ [LF])]
                   else h);
             h2 = h1 @ [Call_listen (fd_m s) backlog]
         in if sys_listen os h1 (fd_m s) backlog = -1 then
              (Inl (Runtime_error ''tcp::socket::listen: listen() failed.''), s, h2)
            else (Inr (), s, h2)))"

definition accept :: "os \<Rightarrow> socket \<Rightarrow> event list \<Rightarrow> socket outcome" where
  "accept os s h =
     (let (new_fd, client, size) = sys_accept os h (fd_m s);
          h1 = h @ [Call_accept (fd_m s)]
      in if new_fd = -1 then
           (Inl (Runtime_error ''tcp::socket::accpet: accept() failed.''), s, h1)
         else
           (let (res, host, port) = sys_getnameinfo os h1 client size;
                h2 = h1 @ [Call_getnameinfo client size [NI_NUMERICHOST, NI_NUMERICSERV]]
            in if res \<noteq> 0 then
                 (Inl (Runtime_error ''tcp::socket::accept: getnameinfo() failed.''), s, h2)
               else
                 (case stoi (c_str port) of
                    Inl e \<Rightarrow> (Inl e, s, h2)
                  | Inr p \<Rightarrow> (Inr (socket_from_fd new_fd (c_str host) (word_of_int p)), s, h2))))"

definition connect :: "os \<Rightarrow> socket \<Rightarrow> string \<Rightarrow> 32 word \<Rightarrow> event list \<Rightarrow> unit outcome" where
  "connect os s host port h =
     (if is_socket_bound_m s then
        (Inl (Logic_error
           (''tcp::socket::connect: Trying to connect a socket bound on port: ''
            @ to_string (unat (port_m s))
            @ ''. Invalid operation for a socket planned for a server application.'')),
         s, h)
      else
        (case get_addr_info os (s\<lparr>host_m := host, port_m := port\<rparr>) h of
           (Inl e, s1, h1) \<Rightarrow> (Inl e, s1, h1)
         | (Inr _, s1, h1) \<Rightarrow>
           (case create_socket os s1 h1 of
              (Inl e, s2, h2) \<Rightarrow> (Inl e, s2, h2)
            | (Inr _, s2, h2) \<Rightarrow>
              (let a = v_addrinfo_m s2;
                   h3 = h2 @ [Call_connect (fd_m s2) (ai_addr a) (ai_addrlen a)]
               in if sys_connect os h2 (fd_m s2) (ai_addr a) (ai_addrlen a) = -1 then
                    (Inl (Runtime_error ''tcp::socket::connect: connect() failed.''), s2, h3)
                  else (Inr (), s2, h3)))))"

text \<open>\<^verbatim>\<open>send(const std::vector<char> &, std::size_t)\<close>. The result of the call is stored
  in a \<^verbatim>\<open>std::size_t\<close> (64 bits here) and compared with \<open>-1\<close> there.\<close>

definition send_vector :: "os \<Rightarrow> socket \<Rightarrow> string \<Rightarrow> nat \<Rightarrow> event list \<Rightarrow> (64 word) outcome" where
  "send_vector os s message message_len h =
     (if fd_m s = -1 then
        (Inl (Logic_error
           ''tcp::socket::send: Invalid operation. Trying to send data on a non connected socket.''),
         s, h)
      else
        (let res = (word_of_int (sys_send os h (fd_m s) message message_len) :: 64 word);
             h1 = h @ [Call_send (fd_m s) message message_len]
         in if res = word_of_int (-1) then
              (Inl (Runtime_error ''tcp::socket::send: send() failed.''), s, h1)
            else (Inr res, s, h1)))"

text \<open>\<^verbatim>\<open>send(const std::string &)\<close>.\<close>

definition send :: "os \<Rightarrow> socket \<Rightarrow> string \<Rightarrow> event list \<Rightarrow> (64 word) outcome" where
  "send os s message h = send_vector os s message (length message) h"

text \<open>\<^verbatim>\<open>receive\<close>: the buffer is created with \<open>size_to_read\<close> zero bytes, the call writes
  the delivered bytes at its start, and the buffer is returned as it is.\<close>

definition receive :: "os \<Rightarrow> socket \<Rightarrow> nat \<Rightarrow> event list \<Rightarrow> string outcome" where
  "receive os s size_to_read h =
     (if fd_m s = -1 then
        (Inl (Logic_error
           ''tcp::socket::send: Invalid operation. Trying to receive data on a non connected socket.''),
         s, h)
      else
        (let buffer0 = replicate size_to_read NUL;
             got = sys_recv os h (fd_m s) size_to_read;
             h1 = h @ [Call_recv (fd_m s) size_to_read];
             written = (case got of None \<Rightarrow> [] | Some bs \<Rightarrow> take size_to_read bs);
             buffer = written @ drop (length written) buffer0;
             bytes_read = (word_of_int (case got of None \<Rightarrow> -1 | Some bs \<Rightarrow> int (length written))
                           :: 64 word)
         in if bytes_read = word_of_int (-1) then
              (Inl (Runtime_error ''tcp::socket::receive: recv() failed.''), s, h1)
            else if bytes_read = 0 then
              (case close os s (h1 @ [Print_cout (''Connection closed by peer.'' @ [LF])]) of
                 (Inl e, s1, h2) \<Rightarrow> (Inl e, s1, h2)
               | (Inr _, s1, h2) \<Rightarrow> (Inr buffer, s1, h2))
            else (Inr buffer, s, h1)))"

subsection \<open>server\<close>

definition server_default :: server where
  "server_default = \<lparr>socket_m = socket_default, is_running_m = False, callback_m = None\<rparr>"

definition on_accept :: "server \<Rightarrow> callback option \<Rightarrow> server" where
  "on_accept srv callback = srv\<lparr>callback_m := callback\<rparr>"

text \<open>The call of the registered function: it may use and change the client socket, and
  issue further calls.\<close>

definition invoke :: "callback \<Rightarrow> string \<Rightarrow> socket \<Rightarrow> event list \<Rightarrow> unit outcome" where
  "invoke cb cmd client h =
     (case cb cmd client (h @ [Call_callback cmd client]) of
        (None, c, h1) \<Rightarrow> (Inr (), c, h1)
      | (Some e, c, h1) \<Rightarrow> (Inl e, c, h1))"

text \<open>The end of the scope of \<^verbatim>\<open>client\<close> in \<^verbatim>\<open>process\<close>: its destructor calls
  \<^verbatim>\<open>close\<close>, on the normal path and while an exception unwinds the stack.\<close>

definition end_of_scope :: "os \<Rightarrow> unit outcome \<Rightarrow> (error + unit) \<times> event list" where
  "end_of_scope os r =
     (case r of (res, client, h) \<Rightarrow>
        (case close os client h of
           (Inl e, c, h1) \<Rightarrow> (Inl Terminate, h1)
         | (Inr _, c, h1) \<Rightarrow> (res, h1)))"

definition process :: "os \<Rightarrow> server \<Rightarrow> event list \<Rightarrow> (error + unit) \<times> event list" where
  "process os srv h =
     (case accept os (socket_m srv) h of
        (Inl e, s, h1) \<Rightarrow> (Inl e, h1)
      | (Inr client, s, h1) \<Rightarrow>
        end_of_scope os
          (case receive os client BUFFER_SIZE h1 of
             (Inl e, c1, h2) \<Rightarrow> (Inl e, c1, h2)
           | (Inr rcv, c1, h2) \<Rightarrow>
             (case string_of_data rcv of
                None \<Rightarrow> (Inl Undefined_behaviour, c1, h2)
              | Some cmd0 \<Rightarrow>
                if cmd0 = [] then (Inl Undefined_behaviour, c1, h2)
                else
                  (let cmd = butlast cmd0;
                       response = ''Executing command ['' @ cmd @ ''] ...'' @ [LF]
                   in case send os c1 response h2 of
                        (Inl e, c2, h3) \<Rightarrow> (Inl e, c2, h3)
                      | (Inr n, c2, h3) \<Rightarrow>
                        (case callback_m srv of
                           None \<Rightarrow> (Inr (), c2, h3)
                         | Some cb \<Rightarrow> invoke cb cmd c2 h3)))))"

definition run :: "os \<Rightarrow> server \<Rightarrow> string \<Rightarrow> 32 word \<Rightarrow> event list \<Rightarrow> (error + unit) \<times> server \<times> event list" where
  "run os srv host port h =
     (if is_running_m srv then
        (Inl (Runtime_error ''tcp::server::run: Server is aldready running.''), srv, h)
      else
        (case bind os (socket_m srv) host port h of
           (Inl e, s1, h1) \<Rightarrow> (Inl e, srv\<lparr>socket_m := s1\<rparr>, h1)
         | (Inr _, s1, h1) \<Rightarrow>
           (case listen os s1 BACKLOG h1 of
              (Inl e, s2, h2) \<Rightarrow> (Inl e, srv\<lparr>socket_m := s2\<rparr>, h2)
            | (Inr _, s2, h2) \<Rightarrow>
              (let srv1 = srv\<lparr>socket_m := s2, is_running_m := True\<rparr>
               in case process os srv1 h2 of (res, h3) \<Rightarrow> (res, srv1, h3)))))"

definition stop :: "os \<Rightarrow> server \<Rightarrow> event list \<Rightarrow> (error + unit) \<times> server \<times> event list" where
  "stop os srv h =
     (if \<not> is_running_m srv then (Inr (), srv, h)
      else
        (case close os (socket_m srv) h of
           (Inl e, s1, h1) \<Rightarrow> (Inl e, srv\<lparr>socket_m := s1\<rparr>, h1)
         | (Inr _, s1, h1) \<Rightarrow> (Inr (), srv\<lparr>socket_m := s1, is_running_m := False\<rparr>, h1)))"

subsection \<open>Connections taken\<close>

text \<open>The number of times the operating system was asked for a pending connection.\<close>

fun is_accept :: "event \<Rightarrow> bool" where
  "is_accept (Call_accept fd) = True"
| "is_accept e = False"

definition accept_calls :: "event list \<Rightarrow> nat" where
  "accept_calls h = length (filter is_accept h)"

subsection \<open>Exception classes\<close>

text \<open>What a handler for \<^verbatim>\<open>std::logic_error\<close> and one for \<^verbatim>\<open>std::runtime_error\<close>
  catch. \<^verbatim>\<open>std::invalid_argument\<close> and \<^verbatim>\<open>std::out_of_range\<close> derive from
  \<^verbatim>\<open>std::logic_error\<close>.\<close>

fun is_logic_error :: "error \<Rightarrow> bool" where
  "is_logic_error (Logic_error m) = True"
| "is_logic_error Invalid_argument = True"
| "is_logic_error Out_of_range = True"
| "is_logic_error e = False"

fun is_runtime_error :: "error \<Rightarrow> bool" where
  "is_runtime_error (Runtime_error m) = True"
| "is_runtime_error e = False"

subsection \<open>A concrete environment\<close>

text \<open>An operating system where every call succeeds: one candidate address, descriptor 3
  for the new socket, a peer at 127.0.0.1:54321 accepted on descriptor 4 that has sent
  \<open>PING\<close> and a line feed, and writes that take every byte.\<close>

definition loopback :: sockaddr where
  "loopback = [127, 0, 0, 1]"

definition os_ok :: os where
  "os_ok = \<lparr>
     sys_getaddrinfo = (\<lambda>h node service. (0, Some (Addrinfo 2 1 6 16 (Some loopback) None))),
     sys_socket = (\<lambda>h fam typ proto. 3),
     sys_setsockopt = (\<lambda>h fd. 0),
     sys_bind = (\<lambda>h fd a l. 0),
     sys_listen = (\<lambda>h fd b. 0),
     sys_accept = (\<lambda>h fd. (4, loopback, 16)),
     sys_getnameinfo = (\<lambda>h a l. (0, ''127.0.0.1'', ''54321'')),
     sys_connect = (\<lambda>h fd a l. 0),
     sys_send = (\<lambda>h fd m l. int l),
     sys_recv = (\<lambda>h fd n. Some (''PING'' @ [LF])),
     sys_close = (\<lambda>h fd. 0),
     SOMAXCONN = 128\<rparr>"

text \<open>The same with one call failing, or with a peer that has closed the connection.\<close>

definition os_close_fails :: os where
  "os_close_fails = os_ok\<lparr>sys_close := (\<lambda>h fd. -1)\<rparr>"

definition os_bind_fails :: os where
  "os_bind_fails = os_ok\<lparr>sys_bind := (\<lambda>h fd a l. -1)\<rparr>"


definition os_peer_closed :: os where
  "os_peer_closed = os_ok\<lparr>sys_recv := (\<lambda>h fd n. Some [])\<rparr>"

text \<open>A callback that does nothing, the socket that \<open>accept\<close> returns under \<open>os_ok\<close>, a
  bound listening socket, and a server before its first \<open>run\<close> with the outcome of that
  \<open>run\<close>.\<close>

definition cb_nop :: callback where
  "cb_nop cmd c h = (None, c, h)"

definition accepted_client :: socket where
  "accepted_client = socket_from_fd 4 ''127.0.0.1'' 54321"

definition listening_socket :: socket where
  "listening_socket =
     \<lparr>fd_m = 3, host_m = ''127.0.0.1'', port_m = 12345,
      addrinfo_m = Addrinfo 2 1 6 16 (Some loopback) None,
      v_addrinfo_m = Addrinfo 2 1 6 16 (Some loopback) None, is_socket_bound_m = True\<rparr>"

definition server_ping :: server where
  "server_ping = on_accept server_default (Some cb_nop)"

text \<open>A callback that prints the command it is given, and a server that listens with it.\<close>

definition cb_echo :: callback where
  "cb_echo cmd c h = (None, c, h @ [Print_cout cmd])"

definition server_echo :: server where
  "server_echo =
     \<lparr>socket_m = listening_socket, is_running_m = True, callback_m = Some cb_echo\<rparr>"

definition first_run :: "(error + unit) \<times> server \<times> event list" where
  "first_run = run os_ok server_ping ''127.0.0.1'' 12345 []"

section \<open>Properties\<close>

lemmas fixture_defs = os_ok_def os_close_fails_def os_bind_fails_def os_peer_closed_def
  cb_nop_def accepted_client_def listening_socket_def server_ping_def socket_from_fd_def
  socket_default_def server_default_def on_accept_def loopback_def zero_addrinfo_def

subsection \<open>close\<close>

text \<open>
  Claim C4, as stated: every call to \<open>close\<close>, also one whose operating-system call fails,
  leaves the descriptor unopened. It does not: when the call of the operating system
  returns \<open>-1\<close>, \<open>close\<close> throws before it resets the descriptor. Here the socket accepted
  on descriptor 4 keeps descriptor 4 after a failed \<open>close\<close>.
\<close>

theorem close_failure_counterexample:
  "close os_close_fails accepted_client [] =
     (Inl (Runtime_error ''tcp::socket::close: close() failed.''), accepted_client, [Call_close 4])
   \<and> fd_m accepted_client = 4 \<and> fd_m accepted_client \<noteq> -1"
  by (simp add: close_def fixture_defs)

text \<open>
  Claim C4, amended: \<open>close\<close> on a socket without an open descriptor changes nothing and
  cannot fail. On a socket with an open descriptor it issues one call: when that call
  succeeds, \<open>close\<close> returns and the descriptor is unopened; when that call fails, \<open>close\<close>
  raises the close error and leaves the socket as it was, descriptor included. A \<open>close\<close>
  that returned is followed by a second \<open>close\<close> that returns too, issues no call and
  leaves the same state; and a \<open>close\<close> fails in no other way than by the failure of the
  call.
\<close>

theorem close_idempotent:
  "(fd_m s = -1 \<longrightarrow> close os s h = (Inr (), s, h)) \<and>
   (fd_m s \<noteq> -1 \<and> sys_close os h (fd_m s) \<noteq> -1 \<longrightarrow>
      close os s h = (Inr (), s\<lparr>fd_m := -1\<rparr>, h @ [Call_close (fd_m s)])) \<and>
   (fd_m s \<noteq> -1 \<and> sys_close os h (fd_m s) = -1 \<longrightarrow>
      close os s h =
        (Inl (Runtime_error ''tcp::socket::close: close() failed.''), s, h @ [Call_close (fd_m s)])) \<and>
   (\<forall>s1 h1. close os s h = (Inr (), s1, h1) \<longrightarrow>
      fd_m s1 = -1 \<and> close os s1 h1 = (Inr (), s1, h1)) \<and>
   (\<forall>e s1 h1. close os s h = (Inl e, s1, h1) \<longrightarrow>
      e = Runtime_error ''tcp::socket::close: close() failed.'' \<and> s1 = s
      \<and> fd_m s \<noteq> -1 \<and> sys_close os h (fd_m s) = -1)"
proof -
  have unopened: "fd_m s = -1 \<longrightarrow> close os s h = (Inr (), s, h)"
    by (simp add: close_def)
  have closes: "fd_m s \<noteq> -1 \<and> sys_close os h (fd_m s) \<noteq> -1 \<longrightarrow>
      close os s h = (Inr (), s\<lparr>fd_m := -1\<rparr>, h @ [Call_close (fd_m s)])"
    by (simp add: close_def Let_def)
  have fails: "fd_m s \<noteq> -1 \<and> sys_close os h (fd_m s) = -1 \<longrightarrow>
      close os s h =
        (Inl (Runtime_error ''tcp::socket::close: close() failed.''), s, h @ [Call_close (fd_m s)])"
    by (simp add: close_def Let_def)
  have again: "\<forall>s1 h1. close os s h = (Inr (), s1, h1) \<longrightarrow>
      fd_m s1 = -1 \<and> close os s1 h1 = (Inr (), s1, h1)"
    by (auto simp: close_def Let_def split: if_splits)
  have raised: "\<forall>e s1 h1. close os s h = (Inl e, s1, h1) \<longrightarrow>
      e = Runtime_error ''tcp::socket::close: close() failed.'' \<and> s1 = s
      \<and> fd_m s \<noteq> -1 \<and> sys_close os h (fd_m s) = -1"
    by (auto simp: close_def Let_def split: if_splits)
  from unopened closes fails again raised show ?thesis by (intro conjI)
qed

theorem close_idempotent_witness:
  "close os_ok accepted_client [] = (Inr (), accepted_client\<lparr>fd_m := -1\<rparr>, [Call_close 4])
   \<and> close os_ok (accepted_client\<lparr>fd_m := -1\<rparr>) [Call_close 4]
       = (Inr (), accepted_client\<lparr>fd_m := -1\<rparr>, [Call_close 4])
   \<and> close os_close_fails accepted_client [] =
       (Inl (Runtime_error ''tcp::socket::close: close() failed.''), accepted_client, [Call_close 4])"
proof -
  have fd: "fd_m accepted_client = 4" "fd_m accepted_client \<noteq> -1"
    by (simp_all add: accepted_client_def socket_from_fd_def)
  have ok: "sys_close os_ok [] (fd_m accepted_client) \<noteq> -1"
    and bad: "sys_close os_close_fails [] (fd_m accepted_client) = -1"
    by (simp_all add: os_ok_def os_close_fails_def)
  note good = close_idempotent [of accepted_client os_ok "[]"]
  note failing = close_idempotent [of accepted_client os_close_fails "[]"]
  from good [THEN conjunct2, THEN conjunct1] fd ok
  have first: "close os_ok accepted_client [] =
      (Inr (), accepted_client\<lparr>fd_m := -1\<rparr>, [Call_close 4])"
    by simp
  from good [THEN conjunct2, THEN conjunct2, THEN conjunct2, THEN conjunct1] first
  have second: "close os_ok (accepted_client\<lparr>fd_m := -1\<rparr>) [Call_close 4]
       = (Inr (), accepted_client\<lparr>fd_m := -1\<rparr>, [Call_close 4])"
    by blast
  from failing [THEN conjunct2, THEN conjunct2, THEN conjunct1] fd bad
  have third: "close os_close_fails accepted_client [] =
       (Inl (Runtime_error ''tcp::socket::close: close() failed.''), accepted_client, [Call_close 4])"
    by simp
  from first second third show ?thesis by (intro conjI)
qed

subsection \<open>receive\<close>

text \<open>
  Claim C10: on a socket with an open descriptor, a \<open>receive\<close> that returns gives a buffer
  of exactly \<open>size_to_read\<close> bytes: the bytes the operating system delivered (at most
  \<open>size_to_read\<close> of them) at the start, and the zero bytes of the initial buffer at every
  position after them. The buffer is not cut to the number of bytes read.
\<close>

theorem receive_buffer_length:
  assumes "fd_m s \<noteq> -1" and "receive os s size_to_read h = (Inr buffer, s1, h1)"
  shows "length buffer = size_to_read \<and>
         (\<exists>bs. sys_recv os h (fd_m s) size_to_read = Some bs
            \<and> take (length bs) buffer = take size_to_read bs
            \<and> (\<forall>i. length bs \<le> i \<and> i < size_to_read \<longrightarrow> buffer ! i = NUL))"
  using assms
  by (auto simp: receive_def Let_def nth_append min_def
           split: if_splits option.splits prod.splits sum.splits)

theorem receive_buffer_length_witness:
  "fd_m accepted_client \<noteq> -1
   \<and> receive os_ok accepted_client 8 [] =
       (Inr (''PING'' @ [LF, NUL, NUL, NUL]), accepted_client, [Call_recv 4 8])
   \<and> length (''PING'' @ [LF, NUL, NUL, NUL]) = 8
   \<and> (''PING'' @ [LF, NUL, NUL, NUL]) ! 6 = NUL"
proof -
  have open_fd: "fd_m accepted_client \<noteq> -1"
    by (simp add: fixture_defs)
  have got: "sys_recv os_ok [] (fd_m accepted_client) 8 = Some (''PING'' @ [LF])"
    by (simp add: fixture_defs)
  have ret: "receive os_ok accepted_client 8 [] =
      (Inr (''PING'' @ [LF, NUL, NUL, NUL]), accepted_client, [Call_recv 4 8])"
    by (simp add: receive_def fixture_defs Let_def numeral_3_eq_3)
  from receive_buffer_length [OF open_fd ret] got
  have "length (''PING'' @ [LF, NUL, NUL, NUL]) = 8"
    and "\<forall>i. length (''PING'' @ [LF]) \<le> i \<and> i < 8 \<longrightarrow> (''PING'' @ [LF, NUL, NUL, NUL]) ! i = NUL"
    by auto
  then show ?thesis using open_fd ret by simp
qed

text \<open>
  Claim C3, as stated: when the read yields zero bytes, \<open>receive\<close> returns a zero-length
  result. It returns the whole buffer instead: with four bytes requested and a peer that has
  closed the connection, the result is four zero bytes, not the empty buffer.
\<close>

theorem receive_peer_closed_counterexample:
  "receive os_peer_closed accepted_client 4 [] =
     (Inr [NUL, NUL, NUL, NUL], accepted_client\<lparr>fd_m := -1\<rparr>,
      [Call_recv 4 4, Print_cout (''Connection closed by peer.'' @ [LF]), Call_close 4])
   \<and> length [NUL, NUL, NUL, NUL] \<noteq> 0"
  by (simp add: receive_def close_def fixture_defs Let_def eval_nat_numeral)

text \<open>
  Claim C3, amended: when the read on an open socket yields zero bytes and the
  operating-system call that closes the descriptor succeeds, \<open>receive\<close> does not fail: it
  prints the notice, closes this socket (the descriptor is left unopened) and returns the
  buffer of \<open>size_to_read\<close> zero bytes, which holds no received byte.
\<close>

theorem receive_peer_closed:
  assumes "fd_m s \<noteq> -1"
    and "sys_recv os h (fd_m s) size_to_read = Some bs"
    and "take size_to_read bs = []"
    and "sys_close os (h @ [Call_recv (fd_m s) size_to_read,
            Print_cout (''Connection closed by peer.'' @ [LF])]) (fd_m s) \<noteq> -1"
  shows "receive os s size_to_read h =
           (Inr (replicate size_to_read NUL), s\<lparr>fd_m := -1\<rparr>,
            h @ [Call_recv (fd_m s) size_to_read,
                 Print_cout (''Connection closed by peer.'' @ [LF]), Call_close (fd_m s)])"
  using assms(1,2,4) by (simp add: receive_def close_def Let_def assms(3))

theorem receive_peer_closed_witness:
  "receive os_peer_closed accepted_client 8096 [] =
     (Inr (replicate 8096 NUL), accepted_client\<lparr>fd_m := -1\<rparr>,
      [Call_recv 4 8096, Print_cout (''Connection closed by peer.'' @ [LF]), Call_close 4])"
  using receive_peer_closed [of accepted_client os_peer_closed "[]" 8096 "[]"]
  by (simp add: fixture_defs)

subsection \<open>send\<close>

text \<open>A result of the call that is a count of bytes is kept by the conversion to
  \<^verbatim>\<open>std::size_t\<close> and is not mistaken for \<open>-1\<close>.\<close>

lemma ssize_to_size:
  assumes "0 \<le> r" and "r < 2 ^ 63"
  shows "(word_of_int r :: 64 word) \<noteq> word_of_int (-1)"
    and "uint (word_of_int r :: 64 word) = r"
proof -
  from assms have small: "r < 2 ^ 64" by simp
  with assms(1) have tb: "take_bit 64 r = r"
    by (simp add: take_bit_int_eq_self)
  then show "uint (word_of_int r :: 64 word) = r"
    by (simp add: uint_word_of_int_eq)
  have "take_bit 64 (-1 :: int) = 2 ^ 64 - 1"
    by (simp add: mask_eq_exp_minus_1)
  with tb assms(2) have "take_bit 64 r \<noteq> take_bit 64 (-1 :: int)"
    by simp
  then show "(word_of_int r :: 64 word) \<noteq> word_of_int (-1)"
    using word_of_int_eq_iff [where ?'a = 64, of r "-1"] by simp
qed

text \<open>
  Claim C7: on a socket with an open descriptor, \<open>send\<close> issues exactly one call of the
  operating system, with the whole message and the full requested length, and when that call
  reports \<open>r\<close> bytes written, \<open>send\<close> returns \<open>r\<close>; there is no second call for what a
  partial write left. The overload for a string is the same call with the length of the
  string.
\<close>

theorem send_one_call:
  assumes "fd_m s \<noteq> -1"
    and "sys_send os h (fd_m s) message message_len = r"
    and "0 \<le> r" and "r < 2 ^ 63"
  shows "(\<exists>res. send_vector os s message message_len h =
             (Inr res, s, h @ [Call_send (fd_m s) message message_len]) \<and> uint res = r)
         \<and> (message_len = length message \<longrightarrow>
              send os s message h = send_vector os s message message_len h)"
  using assms ssize_to_size [of r]
  by (simp add: send_def send_vector_def Let_def)

theorem send_one_call_witness:
  "send os_ok accepted_client ''hello'' [] =
     (Inr 5, accepted_client, [Call_send 4 ''hello'' 5])"
proof -
  have fd: "fd_m accepted_client \<noteq> -1" and fd4: "fd_m accepted_client = 4"
    by (simp_all add: fixture_defs)
  have r: "sys_send os_ok [] (fd_m accepted_client) ''hello'' 5 = 5"
    by (simp add: fixture_defs)
  from send_one_call [OF fd r] obtain res where
    sv: "send_vector os_ok accepted_client ''hello'' 5 [] =
           (Inr res, accepted_client, [Call_send (fd_m accepted_client) ''hello'' 5])"
    and u: "uint res = 5"
    and eq: "send os_ok accepted_client ''hello'' [] = send_vector os_ok accepted_client ''hello'' 5 []"
    by auto
  from u have "res = 5"
    by (metis word_of_int_uint word_of_int_numeral)
  with sv eq fd4 show ?thesis by simp
qed

subsection \<open>listen\<close>




subsection \<open>bind\<close>

lemma to_string_12345: "to_string 12345 = ''12345''"
  by (simp add: to_string.simps digit_char_def)








lemma stoi_54321: "stoi ''54321'' = Inr 54321"
  by (simp add: stoi_def isspace_def isdigit_def digits_value_def)

subsection \<open>Violations of the lifecycle\<close>

text \<open>
  Claim C5, as stated: every call that violates the lifecycle, \<open>run\<close> on a running server
  among them, fails with the error kind kept for such mistakes, which differs from the kind
  of the failures of the operating system. \<open>run\<close> on a running server throws
  \<^verbatim>\<open>std::runtime_error\<close>, which is not a \<^verbatim>\<open>std::logic_error\<close> and is the class thrown
  when a call of the operating system fails, as in \<open>close\<close>.
\<close>
theorem run_while_running_counterexample:
  "run os_ok (server_ping\<lparr>is_running_m := True\<rparr>) ''127.0.0.1'' 12345 [] =
     (Inl (Runtime_error ''tcp::server::run: Server is aldready running.''),
      server_ping\<lparr>is_running_m := True\<rparr>, [])
   \<and> \<not> is_logic_error (Runtime_error ''tcp::server::run: Server is aldready running.'')
   \<and> is_runtime_error (Runtime_error ''tcp::server::run: Server is aldready running.'')
   \<and> fst (close os_close_fails accepted_client []) =
        Inl (Runtime_error ''tcp::socket::close: close() failed.'')"
  by (simp add: run_def close_def os_close_fails_def os_ok_def accepted_client_def
        socket_from_fd_def)

text \<open>
  Claim C5, amended: \<open>listen\<close> on a socket that is not bound, \<open>connect\<close> on a bound socket,
  and \<open>send\<close> or \<open>receive\<close> on a socket without a descriptor fail at once with a
  \<^verbatim>\<open>std::logic_error\<close>: no call is issued and the socket is unchanged. \<open>run\<close> on a running
  server fails at once too, with no call and no change, but with a
  \<^verbatim>\<open>std::runtime_error\<close>.
\<close>

theorem lifecycle_violations:
  "(\<not> is_socket_bound_m s \<longrightarrow>
      (\<exists>m. listen os s backlog h = (Inl (Logic_error m), s, h))) \<and>
   (is_socket_bound_m s \<longrightarrow>
      (\<exists>m. connect os s host port h = (Inl (Logic_error m), s, h))) \<and>
   (fd_m s = -1 \<longrightarrow>
      (\<exists>m. send_vector os s message message_len h = (Inl (Logic_error m), s, h)) \<and>
      (\<exists>m. send os s message h = (Inl (Logic_error m), s, h)) \<and>
      (\<exists>m. receive os s size_to_read h = (Inl (Logic_error m), s, h))) \<and>
   (is_running_m srv \<longrightarrow>
      (\<exists>m. run os srv host port h = (Inl (Runtime_error m), srv, h)))"
  by (simp add: listen_def connect_def send_def send_vector_def receive_def run_def)

theorem lifecycle_violations_witness:
  "(\<exists>m. listen os_ok socket_default BACKLOG [] = (Inl (Logic_error m), socket_default, [])) \<and>
   (\<exists>m. connect os_ok listening_socket ''127.0.0.1'' 12345 [] =
          (Inl (Logic_error m), listening_socket, [])) \<and>
   (\<exists>m. send os_ok socket_default ''PING'' [] = (Inl (Logic_error m), socket_default, [])) \<and>
   (\<exists>m. receive os_ok socket_default BUFFER_SIZE [] = (Inl (Logic_error m), socket_default, [])) \<and>
   (\<exists>m. run os_ok (server_ping\<lparr>is_running_m := True\<rparr>) ''127.0.0.1'' 12345 [] =
          (Inl (Runtime_error m), server_ping\<lparr>is_running_m := True\<rparr>, []))"
proof -
  have unbound: "\<not> is_socket_bound_m socket_default" and unopened: "fd_m socket_default = -1"
    and bound: "is_socket_bound_m listening_socket"
    and running: "is_running_m (server_ping\<lparr>is_running_m := True\<rparr>)"
    by (simp_all add: socket_default_def listening_socket_def)
  from lifecycle_violations [of socket_default os_ok BACKLOG "[]" "''127.0.0.1''" 12345
      "''PING''" 4 BUFFER_SIZE "server_ping\<lparr>is_running_m := True\<rparr>"] unbound unopened running
  have a: "\<exists>m. listen os_ok socket_default BACKLOG [] = (Inl (Logic_error m), socket_default, [])"
    and b: "\<exists>m. send os_ok socket_default ''PING'' [] = (Inl (Logic_error m), socket_default, [])"
    and c: "\<exists>m. receive os_ok socket_default BUFFER_SIZE [] = (Inl (Logic_error m), socket_default, [])"
    and d: "\<exists>m. run os_ok (server_ping\<lparr>is_running_m := True\<rparr>) ''127.0.0.1'' 12345 [] =
          (Inl (Runtime_error m), server_ping\<lparr>is_running_m := True\<rparr>, [])"
    by blast+
  from lifecycle_violations [of listening_socket os_ok BACKLOG "[]" "''127.0.0.1''" 12345
      "''PING''" 4 BUFFER_SIZE "server_ping\<lparr>is_running_m := True\<rparr>"] bound
  have e: "\<exists>m. connect os_ok listening_socket ''127.0.0.1'' 12345 [] =
          (Inl (Logic_error m), listening_socket, [])"
    by blast
  from a b c d e show ?thesis by blast
qed

subsection \<open>accept\<close>

lemma to_string_8080: "to_string 8080 = ''8080''"
  by (simp add: to_string.simps digit_char_def)

lemma close_keeps:
  "close os s h = (r, s1, h1) \<Longrightarrow> is_socket_bound_m s1 = is_socket_bound_m s"
  by (auto simp: close_def Let_def split: if_splits)

lemma receive_keeps:
  assumes "receive os s n h = (r, s1, h1)"
  shows "is_socket_bound_m s1 = is_socket_bound_m s"
proof -
  obtain r2 s2 h2 where c: "close os s (h @ [Call_recv (fd_m s) n,
      Print_cout (''Connection closed by peer.'' @ [LF])]) = (r2, s2, h2)"
    by (metis prod_cases3)
  from close_keeps [OF c] have "is_socket_bound_m s2 = is_socket_bound_m s" .
  with assms c show ?thesis
    by (auto simp: receive_def Let_def split: if_splits sum.splits)
qed

lemma send_keeps:
  "send os s message h = (r, s1, h1) \<Longrightarrow> s1 = s"
  by (auto simp: send_def send_vector_def Let_def split: if_splits)

text \<open>
  Claim C8, as stated: the socket that \<open>accept\<close> returns is never bound or connected again.
  Nothing in the class holds it to that. Here the accepted socket is closed and then bound
  to port 8080: \<open>bind\<close> succeeds and sets \<open>is_socket_bound_m\<close>; \<open>connect\<close> in place of
  \<open>bind\<close> succeeds as well.
\<close>

theorem accepted_socket_rebound_counterexample:
  "accept os_ok listening_socket [] =
     (Inr accepted_client, listening_socket,
      [Call_accept 3, Call_getnameinfo loopback 16 [NI_NUMERICHOST, NI_NUMERICSERV]])
   \<and> close os_ok accepted_client [] = (Inr (), accepted_client\<lparr>fd_m := -1\<rparr>, [Call_close 4])
   \<and> fst (bind os_ok (accepted_client\<lparr>fd_m := -1\<rparr>) ''127.0.0.1'' 8080 [Call_close 4]) = Inr ()
   \<and> is_socket_bound_m
        (fst (snd (bind os_ok (accepted_client\<lparr>fd_m := -1\<rparr>) ''127.0.0.1'' 8080 [Call_close 4])))
   \<and> fst (connect os_ok (accepted_client\<lparr>fd_m := -1\<rparr>) ''127.0.0.1'' 8080 [Call_close 4]) = Inr ()"
  by (simp add: accept_def close_def bind_def connect_def get_addr_info_def create_socket_def
        c_str_def NUL_def to_string_8080 stoi_54321 fixture_defs Let_def)

text \<open>
  Claim C8, amended: an \<open>accept\<close> that returns gives a new socket built from the descriptor
  the operating system returned, the host text and the port number that \<open>getnameinfo\<close> gave
  when asked for numeric forms only, empty address information and
  \<open>is_socket_bound_m = False\<close>; the listening socket is unchanged. \<open>receive\<close> and \<open>send\<close>,
  the two operations that \<open>process\<close> applies to that socket, leave it unbound. The class
  does not stop a caller from calling \<open>bind\<close> or \<open>connect\<close> on it later.
\<close>

theorem accept_returns_new_socket:
  assumes "accept os s h = (Inr c, s1, h1)"
  shows "(\<exists>new_fd addr len host port p.
            sys_accept os h (fd_m s) = (new_fd, addr, len) \<and> new_fd \<noteq> -1
            \<and> sys_getnameinfo os (h @ [Call_accept (fd_m s)]) addr len = (0, host, port)
            \<and> stoi (c_str port) = Inr p
            \<and> c = \<lparr>fd_m = new_fd, host_m = c_str host, port_m = word_of_int p,
                    addrinfo_m = zero_addrinfo, v_addrinfo_m = zero_addrinfo,
                    is_socket_bound_m = False\<rparr>
            \<and> h1 = h @ [Call_accept (fd_m s),
                         Call_getnameinfo addr len [NI_NUMERICHOST, NI_NUMERICSERV]])
         \<and> s1 = s \<and> \<not> is_socket_bound_m c
         \<and> (\<forall>n h2 r c2 h3. receive os c n h2 = (r, c2, h3) \<longrightarrow> \<not> is_socket_bound_m c2)
         \<and> (\<forall>m h2 r c2 h3. send os c m h2 = (r, c2, h3) \<longrightarrow> \<not> is_socket_bound_m c2)"
proof -
  from assms have shape: "(\<exists>new_fd addr len host port p.
            sys_accept os h (fd_m s) = (new_fd, addr, len) \<and> new_fd \<noteq> -1
            \<and> sys_getnameinfo os (h @ [Call_accept (fd_m s)]) addr len = (0, host, port)
            \<and> stoi (c_str port) = Inr p
            \<and> c = \<lparr>fd_m = new_fd, host_m = c_str host, port_m = word_of_int p,
                    addrinfo_m = zero_addrinfo, v_addrinfo_m = zero_addrinfo,
                    is_socket_bound_m = False\<rparr>
            \<and> h1 = h @ [Call_accept (fd_m s),
                         Call_getnameinfo addr len [NI_NUMERICHOST, NI_NUMERICSERV]])
         \<and> s1 = s"
    by (auto simp: accept_def Let_def socket_from_fd_def split: prod.splits if_splits sum.splits)
  then have unbound: "\<not> is_socket_bound_m c" by auto
  with receive_keeps send_keeps shape show ?thesis by blast
qed

theorem accept_returns_new_socket_witness:
  "accepted_client =
     \<lparr>fd_m = 4, host_m = ''127.0.0.1'', port_m = 54321, addrinfo_m = zero_addrinfo,
      v_addrinfo_m = zero_addrinfo, is_socket_bound_m = False\<rparr>
   \<and> \<not> is_socket_bound_m (fst (snd (receive os_ok accepted_client BUFFER_SIZE [])))"
proof -
  have a: "accept os_ok listening_socket [] =
     (Inr accepted_client, listening_socket,
      [Call_accept 3, Call_getnameinfo loopback 16 [NI_NUMERICHOST, NI_NUMERICSERV]])"
    by (simp add: accept_def c_str_def NUL_def stoi_54321 fixture_defs Let_def)
  from accept_returns_new_socket [OF a]
  have "\<forall>n h2 r c2 h3. receive os_ok accepted_client n h2 = (r, c2, h3) \<longrightarrow> \<not> is_socket_bound_m c2"
    by blast
  then have "\<not> is_socket_bound_m (fst (snd (receive os_ok accepted_client BUFFER_SIZE [])))"
    by (metis prod.collapse)
  then show ?thesis by (simp add: accepted_client_def socket_from_fd_def)
qed

subsection \<open>process\<close>

lemma ping_command:
  "string_of_data (''PING'' @ [LF] @ replicate (BUFFER_SIZE - 5) NUL) = Some (''PING'' @ [LF])"
  by (simp add: string_of_data_def BUFFER_SIZE_def NUL_def LF_def)

lemma receive_ping:
  assumes "fd_m c \<noteq> -1" and "sys_recv os h (fd_m c) BUFFER_SIZE = Some (''PING'' @ [LF])"
  shows "receive os c BUFFER_SIZE h =
           (Inr (''PING'' @ [LF] @ replicate (BUFFER_SIZE - 5) NUL), c, h @ [Call_recv (fd_m c) BUFFER_SIZE])"
  using assms ssize_to_size [of 5]
  by (simp add: receive_def Let_def BUFFER_SIZE_def)

text \<open>
  Claim C1: a server with a registered callback accepts a client that has sent \<open>PING\<close> and
  a line feed in one message. \<open>process\<close> reads the message, drops the line feed, sends the
  reply \<open>Executing command [PING] ...\<close> with a line feed on the accepted descriptor, and
  after that calls the callback with the command \<open>PING\<close> and the accepted socket: the
  callback is applied to an event list that ends with the write of the reply and the mark of
  the call. What the callback returns decides the rest: the socket it leaves is closed at the
  end of the scope, and its exception, if any, is the outcome of \<open>process\<close>.
\<close>

theorem process_ping:
  assumes "callback_m srv = Some cb"
    and "sys_accept os h (fd_m (socket_m srv)) = (cfd, addr, len)" and "cfd \<noteq> -1"
    and "sys_getnameinfo os (h @ [Call_accept (fd_m (socket_m srv))]) addr len = (0, chost, cport)"
    and "stoi (c_str cport) = Inr p"
    and "client = socket_from_fd cfd (c_str chost) (word_of_int p)"
    and "hacc = h @ [Call_accept (fd_m (socket_m srv)),
                     Call_getnameinfo addr len [NI_NUMERICHOST, NI_NUMERICSERV]]"
    and "sys_recv os hacc cfd BUFFER_SIZE = Some (''PING'' @ [LF])"
    and "reply = ''Executing command [PING] ...'' @ [LF]"
    and "sys_send os (hacc @ [Call_recv cfd BUFFER_SIZE]) cfd reply 29 = r"
    and "0 \<le> r" and "r < 2 ^ 63"
    and "cb ''PING'' client
           (hacc @ [Call_recv cfd BUFFER_SIZE, Call_send cfd reply 29,
                    Call_callback ''PING'' client])
         = (thrown, c, hcb)"
  shows "process os srv h =
           (if fd_m c = -1 then
              ((case thrown of None \<Rightarrow> Inr () | Some e \<Rightarrow> Inl e), hcb)
            else if sys_close os hcb (fd_m c) = -1 then
              (Inl Terminate, hcb @ [Call_close (fd_m c)])
            else ((case thrown of None \<Rightarrow> Inr () | Some e \<Rightarrow> Inl e),
                  hcb @ [Call_close (fd_m c)]))"
proof -
  have acc: "accept os (socket_m srv) h = (Inr client, socket_m srv, hacc)"
    using assms(2-7) by (simp add: accept_def Let_def)
  have fd: "fd_m client = cfd" "fd_m client \<noteq> -1"
    using assms(3,6) by (simp_all add: socket_from_fd_def)
  have rcv: "receive os client BUFFER_SIZE hacc =
      (Inr (''PING'' @ [LF] @ replicate (BUFFER_SIZE - 5) NUL), client,
       hacc @ [Call_recv cfd BUFFER_SIZE])"
    using receive_ping [of client os hacc] fd assms(8) by simp
  have len: "length reply = 29"
    using assms(9) by simp
  have snd: "send os client reply (hacc @ [Call_recv cfd BUFFER_SIZE]) =
      (Inr (word_of_int r), client, hacc @ [Call_recv cfd BUFFER_SIZE, Call_send cfd reply 29])"
    unfolding send_def len
    using fd assms(10) ssize_to_size(1) [OF assms(11,12)]
    by (simp add: send_vector_def Let_def)
  have reply: "''Executing command ['' @ ''PING'' @ ''] ...'' @ [LF] = reply"
    using assms(9) by simp
  have inv: "invoke cb ''PING'' client (hacc @ [Call_recv cfd BUFFER_SIZE, Call_send cfd reply 29]) =
      ((case thrown of None \<Rightarrow> Inr () | Some e \<Rightarrow> Inl e), c, hcb)"
    using assms(13) by (simp add: invoke_def split: option.splits)
  have "process os srv h =
      end_of_scope os ((case thrown of None \<Rightarrow> Inr () | Some e \<Rightarrow> Inl e), c, hcb)"
    unfolding process_def acc
    by (simp add: rcv ping_command Let_def reply snd assms(1) inv del: append.simps)
  then show ?thesis
    by (simp add: end_of_scope_def close_def Let_def)
qed

theorem process_ping_witness:
  "process os_ok server_echo [] =
     (Inr (),
      [Call_accept 3, Call_getnameinfo loopback 16 [NI_NUMERICHOST, NI_NUMERICSERV],
       Call_recv 4 BUFFER_SIZE, Call_send 4 (''Executing command [PING] ...'' @ [LF]) 29,
       Call_callback ''PING'' accepted_client, Print_cout ''PING'', Call_close 4])"
proof -
  have "process os_ok server_echo [] =
     (if fd_m accepted_client = -1 then
        ((case None of None \<Rightarrow> Inr () | Some e \<Rightarrow> Inl e),
         [Call_accept 3, Call_getnameinfo loopback 16 [NI_NUMERICHOST, NI_NUMERICSERV],
          Call_recv 4 BUFFER_SIZE, Call_send 4 (''Executing command [PING] ...'' @ [LF]) 29,
          Call_callback ''PING'' accepted_client, Print_cout ''PING''])
      else if sys_close os_ok
           [Call_accept 3, Call_getnameinfo loopback 16 [NI_NUMERICHOST, NI_NUMERICSERV],
            Call_recv 4 BUFFER_SIZE, Call_send 4 (''Executing command [PING] ...'' @ [LF]) 29,
            Call_callback ''PING'' accepted_client, Print_cout ''PING'']
           (fd_m accepted_client) = -1 then
        (Inl Terminate,
         [Call_accept 3, Call_getnameinfo loopback 16 [NI_NUMERICHOST, NI_NUMERICSERV],
          Call_recv 4 BUFFER_SIZE, Call_send 4 (''Executing command [PING] ...'' @ [LF]) 29,
          Call_callback ''PING'' accepted_client, Print_cout ''PING'']
         @ [Call_close (fd_m accepted_client)])
      else ((case None of None \<Rightarrow> Inr () | Some e \<Rightarrow> Inl e),
         [Call_accept 3, Call_getnameinfo loopback 16 [NI_NUMERICHOST, NI_NUMERICSERV],
          Call_recv 4 BUFFER_SIZE, Call_send 4 (''Executing command [PING] ...'' @ [LF]) 29,
          Call_callback ''PING'' accepted_client, Print_cout ''PING'']
         @ [Call_close (fd_m accepted_client)]))"
    by (rule process_ping [where cb = cb_echo and cfd = 4 and addr = loopback and len = 16
          and chost = "''127.0.0.1''" and cport = "''54321''" and p = 54321 and r = 29
          and client = accepted_client
          and hacc = "[Call_accept 3, Call_getnameinfo loopback 16 [NI_NUMERICHOST, NI_NUMERICSERV]]"
          and reply = "''Executing command [PING] ...'' @ [LF]"])
       (simp_all add: server_echo_def listening_socket_def os_ok_def accepted_client_def
          c_str_def NUL_def stoi_54321 cb_echo_def)
  then show ?thesis
    by (simp add: os_ok_def accepted_client_def socket_from_fd_def)
qed

subsection \<open>run and stop\<close>

text \<open>No operation but \<open>accept\<close> asks for a connection, and \<open>accept\<close> asks for one.\<close>

lemma accept_calls_append: "accept_calls (a @ b) = accept_calls a + accept_calls b"
  by (simp add: accept_calls_def)

lemma accept_calls_Nil: "accept_calls [] = 0"
  by (simp add: accept_calls_def)

lemma accept_calls_Cons:
  "accept_calls (e # h) = (if is_accept e then 1 else 0) + accept_calls h"
  by (simp add: accept_calls_def)

lemmas accept_count = accept_calls_append accept_calls_Nil accept_calls_Cons

lemma close_accepts:
  "close os s h = (r, s1, h1) \<Longrightarrow> accept_calls h1 = accept_calls h"
  by (auto simp: close_def Let_def accept_count split: if_splits)

lemma get_addr_info_accepts:
  "get_addr_info os s h = (r, s1, h1) \<Longrightarrow> accept_calls h1 = accept_calls h"
  by (auto simp: get_addr_info_def Let_def accept_count split: prod.splits if_splits)

lemma create_socket_loop_accepts:
  "create_socket_loop os p s h = (s1, h1) \<Longrightarrow> accept_calls h1 = accept_calls h"
proof (induction os p s h arbitrary: s1 h1 rule: create_socket_loop.induct)
  case (1 os fam ty proto len addr nxt s h)
  show ?case
  proof (cases "sys_socket os h fam ty proto = -1")
    case False
    with "1.prems" show ?thesis by (auto simp: Let_def accept_count)
  next
    case failed: True
    show ?thesis
    proof (cases nxt)
      case None
      with failed "1.prems" show ?thesis by (auto simp: Let_def accept_count)
    next
      case (Some q)
      with failed "1.prems" have "create_socket_loop os q (s\<lparr>fd_m := -1\<rparr>)
          (h @ [Call_socket fam ty proto, Print_cerr (''failed to create socket ...'' @ [LF])])
          = (s1, h1)"
        by (simp add: Let_def)
      from "1.IH" [OF refl refl refl failed refl Some] failed this
      have "accept_calls h1 = accept_calls
          ((h @ [Call_socket fam ty proto]) @ [Print_cerr (''failed to create socket ...'' @ [LF])])"
        by simp
      then show ?thesis by (simp add: accept_count)
    qed
  qed
qed

lemma create_socket_accepts:
  assumes "create_socket os s h = (r, s1, h1)"
  shows "accept_calls h1 = accept_calls h"
proof (cases "fd_m s \<noteq> -1")
  case True
  with assms show ?thesis by (auto simp: create_socket_def)
next
  case False
  obtain s2 h2 where l: "create_socket_loop os (addrinfo_m s) s h = (s2, h2)"
    by (metis surj_pair)
  from create_socket_loop_accepts [OF l] have "accept_calls h2 = accept_calls h" .
  with False l assms show ?thesis
    by (auto simp: create_socket_def split: if_splits)
qed

lemma bind_accepts:
  assumes "bind os s host port h = (r, s1, h1)"
  shows "accept_calls h1 = accept_calls h"
proof -
  obtain r1 s2 h2 where g: "get_addr_info os (s\<lparr>host_m := host, port_m := port\<rparr>) h = (r1, s2, h2)"
    by (metis prod_cases3)
  obtain r2 s3 h3 where c: "create_socket os s2 h2 = (r2, s3, h3)"
    by (metis prod_cases3)
  from get_addr_info_accepts [OF g] create_socket_accepts [OF c]
  have "accept_calls h2 = accept_calls h" "accept_calls h3 = accept_calls h" by simp_all
  with g c assms show ?thesis
    by (auto simp: bind_def Let_def accept_count split: sum.splits if_splits)
qed

lemma listen_accepts:
  "listen os s backlog h = (r, s1, h1) \<Longrightarrow> accept_calls h1 = accept_calls h"
  by (auto simp: listen_def Let_def accept_count split: if_splits)

lemma accept_accepts:
  "accept os s h = (r, s1, h1) \<Longrightarrow> accept_calls h1 = accept_calls h + 1"
  by (auto simp: accept_def Let_def accept_count split: prod.splits if_splits sum.splits)

lemma receive_accepts:
  assumes "receive os s n h = (r, s1, h1)"
  shows "accept_calls h1 = accept_calls h"
proof -
  obtain r2 s2 h2 where c: "close os s (h @ [Call_recv (fd_m s) n] @
      [Print_cout (''Connection closed by peer.'' @ [LF])]) = (r2, s2, h2)"
    by (metis prod_cases3)
  from close_accepts [OF c] have "accept_calls h2 = accept_calls h"
    by (simp add: accept_count)
  with assms c show ?thesis
    by (auto simp: receive_def Let_def accept_count split: if_splits sum.splits)
qed

lemma send_accepts:
  "send os s message h = (r, s1, h1) \<Longrightarrow> accept_calls h1 = accept_calls h"
  by (auto simp: send_def send_vector_def Let_def accept_count split: if_splits)

lemma invoke_accepts:
  assumes "invoke cb cmd c h = (r, c1, h1)"
    and "accept_calls (snd (snd (cb cmd c (h @ [Call_callback cmd c]))))
           = accept_calls (h @ [Call_callback cmd c])"
  shows "accept_calls h1 = accept_calls h"
  using assms
  by (auto simp: invoke_def accept_count split: prod.splits option.splits)

lemma process_accepts:
  assumes "process os srv h = (r, h1)"
    and quiet: "\<forall>cb cmd c hh. callback_m srv = Some cb \<longrightarrow>
                  accept_calls (snd (snd (cb cmd c hh))) = accept_calls hh"
  shows "accept_calls h1 = accept_calls h + 1"
proof -
  obtain ra sa ha where a: "accept os (socket_m srv) h = (ra, sa, ha)"
    by (metis prod_cases3)
  from accept_accepts [OF a] have ha: "accept_calls ha = accept_calls h + 1" .
  show ?thesis
  proof (cases ra)
    case (Inl e)
    with a assms(1) ha show ?thesis by (simp add: process_def)
  next
    case (Inr client)
    define body where "body =
        (case receive os client BUFFER_SIZE ha of
           (Inl e, c1, h2) \<Rightarrow> (Inl e, c1, h2)
         | (Inr rcv, c1, h2) \<Rightarrow>
           (case string_of_data rcv of
              None \<Rightarrow> (Inl Undefined_behaviour, c1, h2)
            | Some cmd0 \<Rightarrow>
              if cmd0 = [] then (Inl Undefined_behaviour, c1, h2)
              else
                (let cmd = butlast cmd0;
                     response = ''Executing command ['' @ cmd @ ''] ...'' @ [LF]
                 in case send os c1 response h2 of
                      (Inl e, c2, h3) \<Rightarrow> (Inl e, c2, h3)
                    | (Inr n, c2, h3) \<Rightarrow>
                      (case callback_m srv of
                         None \<Rightarrow> (Inr (), c2, h3)
                       | Some cb \<Rightarrow> invoke cb cmd c2 h3))))"
    obtain rb cb hb where b: "body = (rb, cb, hb)"
      by (metis prod_cases3)
    have inner: "accept_calls hb = accept_calls ha"
      using b quiet unfolding body_def
      by (auto simp: Let_def split: prod.splits sum.splits option.splits if_splits
               dest!: receive_accepts send_accepts
               dest: invoke_accepts)
    from a Inr assms(1) have "end_of_scope os body = (r, h1)"
      by (simp add: process_def body_def)
    with b have "accept_calls h1 = accept_calls hb"
      by (auto simp: end_of_scope_def split: prod.splits sum.splits dest: close_accepts)
    with inner ha show ?thesis by simp
  qed
qed

lemma process_os_ok:
  assumes "callback_m srv = Some cb_nop"
  shows "process os_ok srv h =
     (Inr (),
      h @ [Call_accept (fd_m (socket_m srv)),
           Call_getnameinfo loopback 16 [NI_NUMERICHOST, NI_NUMERICSERV],
           Call_recv 4 BUFFER_SIZE, Call_send 4 (''Executing command [PING] ...'' @ [LF]) 29,
           Call_callback ''PING'' accepted_client, Call_close 4])"
proof -
  have acc: "accept os_ok (socket_m srv) h =
      (Inr accepted_client, socket_m srv,
       h @ [Call_accept (fd_m (socket_m srv)),
            Call_getnameinfo loopback 16 [NI_NUMERICHOST, NI_NUMERICSERV]])"
    by (simp add: accept_def c_str_def NUL_def stoi_54321 os_ok_def accepted_client_def Let_def)
  have rcv: "receive os_ok accepted_client BUFFER_SIZE h2 =
      (Inr (''PING'' @ [LF] @ replicate (BUFFER_SIZE - 5) NUL), accepted_client,
       h2 @ [Call_recv 4 BUFFER_SIZE])" for h2
    using receive_ping [of accepted_client os_ok h2]
    by (simp add: os_ok_def accepted_client_def socket_from_fd_def)
  have snd: "send os_ok accepted_client (''Executing command ['' @ ''PING'' @ ''] ...'' @ [LF]) h3 =
      (Inr 29, accepted_client,
       h3 @ [Call_send 4 (''Executing command [PING] ...'' @ [LF]) 29])" for h3
    by (simp add: send_def send_vector_def os_ok_def accepted_client_def socket_from_fd_def)
  show ?thesis
    unfolding process_def acc
    by (simp add: rcv ping_command Let_def snd assms invoke_def cb_nop_def end_of_scope_def
          close_def del: append.simps)
       (simp add: os_ok_def accepted_client_def socket_from_fd_def)
qed

lemma first_run_value:
  "first_run =
     (Inr (),
      server_ping\<lparr>socket_m := listening_socket, is_running_m := True\<rparr>,
      [Call_getaddrinfo ''127.0.0.1'' ''12345'', Call_socket 2 1 6, Call_setsockopt 3,
       Call_bind 3 (Some loopback) 16, Call_listen 3 BACKLOG, Call_accept 3,
       Call_getnameinfo loopback 16 [NI_NUMERICHOST, NI_NUMERICSERV],
       Call_recv 4 BUFFER_SIZE, Call_send 4 (''Executing command [PING] ...'' @ [LF]) 29,
       Call_callback ''PING'' accepted_client, Call_close 4])"
proof -
  have b: "bind os_ok socket_default ''127.0.0.1'' 12345 [] =
      (Inr (), listening_socket,
       [Call_getaddrinfo ''127.0.0.1'' ''12345'', Call_socket 2 1 6, Call_setsockopt 3,
        Call_bind 3 (Some loopback) 16])"
    by (simp add: bind_def get_addr_info_def create_socket_def c_str_def NUL_def
          to_string_12345 os_ok_def socket_default_def listening_socket_def zero_addrinfo_def
          Let_def)
  have l: "listen os_ok listening_socket BACKLOG h = (Inr (), listening_socket, h @ [Call_listen 3 BACKLOG])"
    for h
    by (simp add: listen_def os_ok_def listening_socket_def BACKLOG_def Let_def)
  have srv: "socket_m server_ping = socket_default" "\<not> is_running_m server_ping"
    "callback_m server_ping = Some cb_nop"
    by (simp_all add: server_ping_def on_accept_def server_default_def)
  show ?thesis
    unfolding first_run_def run_def
    by (simp add: srv b l process_os_ok Let_def) (simp add: listening_socket_def)
qed

text \<open>
  Claim C6, as stated: a second \<open>run\<close> on the same server, after the first has returned and
  with no \<open>stop\<close> in between, is not rejected as already running. It is: the first \<open>run\<close>
  sets the flag and nothing but \<open>stop\<close> clears it. Here the first \<open>run\<close> serves its
  connection and returns, and the second one fails on the guard.
\<close>
theorem second_run_counterexample:
  "fst first_run = Inr ()
   \<and> fst (run os_ok (fst (snd first_run)) ''127.0.0.1'' 12345 (snd (snd first_run))) =
        Inl (Runtime_error ''tcp::server::run: Server is aldready running.'')"
  by (simp add: first_run_value run_def)

text \<open>
  Claim C6, amended: a \<open>run\<close> that returns has bound the socket, put it in listening mode
  and carried out one \<open>process\<close> cycle, whose event list is the one \<open>run\<close> returns; when
  the callback asks for no connection of its own, exactly one connection was asked for
  during the whole \<open>run\<close>. The server is left marked as running: a second \<open>run\<close> with no
  \<open>stop\<close> in between is rejected with the already-running error, issues no call and
  changes nothing. A \<open>stop\<close> that returns clears the flag, so that the guard lets the next
  \<open>run\<close> pass.
\<close>

theorem run_leaves_server_running:
  assumes "run os srv host port h = (Inr (), srv1, h1)"
  shows "is_running_m srv1
         \<and> (\<exists>s1 ha s2 hb.
               bind os (socket_m srv) host port h = (Inr (), s1, ha)
               \<and> listen os s1 BACKLOG ha = (Inr (), s2, hb)
               \<and> srv1 = srv\<lparr>socket_m := s2, is_running_m := True\<rparr>
               \<and> process os srv1 hb = (Inr (), h1))
         \<and> ((\<forall>cb cmd c hh. callback_m srv = Some cb \<longrightarrow>
                 accept_calls (snd (snd (cb cmd c hh))) = accept_calls hh)
              \<longrightarrow> accept_calls h1 = accept_calls h + 1)
         \<and> run os srv1 host2 port2 h1 =
             (Inl (Runtime_error ''tcp::server::run: Server is aldready running.''), srv1, h1)
         \<and> (\<forall>srv2 h2. stop os srv1 h1 = (Inr (), srv2, h2) \<longrightarrow> \<not> is_running_m srv2)"
proof -
  from assms obtain s1 ha s2 hb where
    b: "bind os (socket_m srv) host port h = (Inr (), s1, ha)"
    and l: "listen os s1 BACKLOG ha = (Inr (), s2, hb)"
    and srv1: "srv1 = srv\<lparr>socket_m := s2, is_running_m := True\<rparr>"
    and p: "process os srv1 hb = (Inr (), h1)"
    by (auto simp: run_def Let_def split: if_splits prod.splits sum.splits)
  from srv1 have running: "is_running_m srv1" by simp
  then have again: "run os srv1 host2 port2 h1 =
      (Inl (Runtime_error ''tcp::server::run: Server is aldready running.''), srv1, h1)"
    by (simp add: run_def)
  have stopped: "\<forall>srv2 h2. stop os srv1 h1 = (Inr (), srv2, h2) \<longrightarrow> \<not> is_running_m srv2"
    using running by (auto simp: stop_def split: prod.splits sum.splits)
  have once: "accept_calls h1 = accept_calls h + 1"
    if quiet: "\<forall>cb cmd c hh. callback_m srv = Some cb \<longrightarrow>
                 accept_calls (snd (snd (cb cmd c hh))) = accept_calls hh"
  proof -
    from quiet srv1 have "\<forall>cb cmd c hh. callback_m srv1 = Some cb \<longrightarrow>
        accept_calls (snd (snd (cb cmd c hh))) = accept_calls hh"
      by simp
    from process_accepts [OF p this] bind_accepts [OF b] listen_accepts [OF l]
    show ?thesis by simp
  qed
  from b l srv1 p have shape: "\<exists>s1 ha s2 hb.
               bind os (socket_m srv) host port h = (Inr (), s1, ha)
               \<and> listen os s1 BACKLOG ha = (Inr (), s2, hb)
               \<and> srv1 = srv\<lparr>socket_m := s2, is_running_m := True\<rparr>
               \<and> process os srv1 hb = (Inr (), h1)"
    by blast
  from running shape once again stopped show ?thesis by (intro conjI impI)
qed

theorem run_leaves_server_running_witness:
  "is_running_m (fst (snd first_run))
   \<and> accept_calls (snd (snd first_run)) = 1
   \<and> run os_ok (fst (snd first_run)) ''127.0.0.1'' 12345 (snd (snd first_run)) =
       (Inl (Runtime_error ''tcp::server::run: Server is aldready running.''),
        fst (snd first_run), snd (snd first_run))"
proof -
  have ran: "run os_ok server_ping ''127.0.0.1'' 12345 [] =
      (Inr (), fst (snd first_run), snd (snd first_run))"
    using first_run_value by (simp add: first_run_def)
  have quiet: "\<forall>cb cmd c hh. callback_m server_ping = Some cb \<longrightarrow>
      accept_calls (snd (snd (cb cmd c hh))) = accept_calls hh"
    by (simp add: server_ping_def on_accept_def cb_nop_def)
  note fact = run_leaves_server_running [OF ran, of "''127.0.0.1''" 12345]
  from fact [THEN conjunct1]
  have a: "is_running_m (fst (snd first_run))" .
  from fact [THEN conjunct2, THEN conjunct2, THEN conjunct1] quiet
  have b: "accept_calls (snd (snd first_run)) = 1"
    by (simp add: accept_calls_Nil)
  from fact [THEN conjunct2, THEN conjunct2, THEN conjunct2, THEN conjunct1]
  have c: "run os_ok (fst (snd first_run)) ''127.0.0.1'' 12345 (snd (snd first_run)) =
       (Inl (Runtime_error ''tcp::server::run: Server is aldready running.''),
        fst (snd first_run), snd (snd first_run))" .
  from a b c show ?thesis by (intro conjI)
qed

end
